theory Spec2Isabelle
  imports Complex_Main "HOL-Library.AList"
begin

section \<open>JavaScript values\<close>

text \<open>
  The module \<^verbatim>\<open>src/lib/firebase/firestore.js\<close> is dynamically typed, so its arguments and
  the stored documents are values of one universe. A number is a 64-bit binary
  floating-point value: \<open>Fin r\<close> is the finite value \<open>r\<close> (with \<open>Fin 0\<close> the positive
  zero), \<open>NegZero\<close> the negative zero, and every arithmetic result is rounded to the
  nearest representable value. A string is the list of its code units. A plain object is an
  association list of its own properties, read by its first entry for a key. A function
  value is known by its declared arity, a store timestamp and a native date by the
  instant they denote.
\<close>

datatype jsnum = Fin rat | NegZero | NaN | PosInf | NegInf

datatype jsval =
    JUndefined
  | JNull
  | JBool bool
  | JNum jsnum
  | JStr string
  | JObj "(string \<times> jsval) list"
  | JArr "jsval list"
  | JFun nat
  | JTimestamp int
  | JDate int

type_synonym props = "(string \<times> jsval) list"

text \<open>
  Errors are values. \<open>Error\<close> is what the module itself throws with \<^verbatim>\<open>new Error(msg)\<close>,
  \<open>TypeError\<close> and \<open>ReferenceError\<close> are raised by the language, \<open>SdkError\<close> is whatever
  the store library throws or rejects with.
\<close>

datatype js_error =
    Error string
  | TypeError string
  | ReferenceError string
  | SdkError string

text \<open>A collection or document reference: the store handle and the path segments.\<close>

datatype ref = Ref jsval "jsval list"

datatype constraint =
    Where string string jsval
  | OrderBy string string

record query =
  q_source :: ref
  q_constraints :: "constraint list"

datatype tx_write = TxUpdate ref props | TxSet ref props

datatype sdk_call =
    CGetDoc ref
  | CGetDocs query
  | COnSnapshotDoc ref
  | COnSnapshotQuery query
  | CRunTransaction

datatype log_entry =
    ConsoleLog string "jsval option"
  | ConsoleError string js_error

text \<open>
  Everything the module takes from outside itself: the language's conversions of values
  that are not plain numbers or plain objects, and the behaviour of the store library.
  Each theorem below holds for every such environment.
\<close>

record env =
  number_of :: "jsval \<Rightarrow> jsnum"
  plus_coerced :: "jsval \<Rightarrow> jsval \<Rightarrow> jsval"
  host_prop :: "jsval \<Rightarrow> string \<Rightarrow> jsval"
  own_props :: "jsval \<Rightarrow> props"
  host_call :: "jsval \<Rightarrow> string \<Rightarrow> js_error + jsval"
  module_db :: jsval
  clock :: int
  auto_id :: string
  ref_rejects :: "ref \<Rightarrow> string option"
  get_rejects :: "ref \<Rightarrow> string option"
  write_rejects :: "tx_write \<Rightarrow> string option"
  commit_rejects :: "tx_write list \<Rightarrow> string option"
  run_query :: "(ref \<times> props) list \<Rightarrow> query \<Rightarrow> string + (string \<times> props) list"
  subscribe_rejects :: "sdk_call \<Rightarrow> string option"

record world =
  docs :: "(ref \<times> props) list"
  calls :: "sdk_call list"
  console :: "log_entry list"

subsection \<open>Operators of the language\<close>

text \<open>Truthiness, as \<^verbatim>\<open>if (v)\<close>, \<^verbatim>\<open>!v\<close>, \<^verbatim>\<open>v ? a : b\<close> and \<^verbatim>\<open>v || d\<close> test it.\<close>

fun truthy :: "jsval \<Rightarrow> bool" where
  "truthy JUndefined = False"
| "truthy JNull = False"
| "truthy (JBool b) = b"
| "truthy (JNum n) = (n \<noteq> Fin 0 \<and> n \<noteq> NegZero \<and> n \<noteq> NaN)"
| "truthy (JStr s) = (s \<noteq> [])"
| "truthy (JObj ps) = True"
| "truthy (JArr xs) = True"
| "truthy (JFun a) = True"
| "truthy (JTimestamp t) = True"
| "truthy (JDate t) = True"

fun nullish :: "jsval \<Rightarrow> bool" where
  "nullish JUndefined = True"
| "nullish JNull = True"
| "nullish v = False"

fun is_function :: "jsval \<Rightarrow> bool" where
  "is_function (JFun a) = True"
| "is_function v = False"

subsection \<open>Binary floating-point arithmetic\<close>

text \<open>
  Rounding a rational to the nearest value with a 53-bit significand and an exponent in
  range, ties to the even significand. \<open>bits n\<close> is the number of binary digits of \<open>n\<close>,
  \<open>floor_log2 a\<close> the exponent of the power of two at or below \<open>a > 0\<close>. The quantum of
  \<open>a\<close> is the exponent of its last significand bit, not below that of the subnormal
  values. A rounded magnitude of \<open>2 ^ 1024\<close> or more overflows to an infinity; one that
  rounds to nothing is a zero with the sign of the exact value.
\<close>

function bits :: "int \<Rightarrow> nat" where
  "bits n = (if n \<le> 0 then 0 else Suc (bits (n div 2)))"
  by pat_completeness auto
termination
  by (relation "measure nat") auto

definition floor_log2 :: "rat \<Rightarrow> int" where
  "floor_log2 a =
     (if 1 \<le> a then int (bits \<lfloor>a\<rfloor>) - 1
      else - int (bits (\<lceil>1 / a\<rceil> - 1)))"

definition pow2 :: "int \<Rightarrow> rat" where
  "pow2 e = (if 0 \<le> e then 2 ^ nat e else 1 / 2 ^ nat (- e))"

definition nearest_even :: "int \<Rightarrow> rat \<Rightarrow> int" where
  "nearest_even f d =
     (if d < 1 / 2 then f
      else if 1 / 2 < d then f + 1
      else if even f then f else f + 1)"

definition round_half_even :: "rat \<Rightarrow> int" where
  "round_half_even x = nearest_even \<lfloor>x\<rfloor> (x - of_int \<lfloor>x\<rfloor>)"

definition quantum :: "rat \<Rightarrow> int" where
  "quantum a = max (floor_log2 a - 52) (- 1074)"

definition pack :: "bool \<Rightarrow> int \<Rightarrow> int \<Rightarrow> jsnum" where
  "pack positive m e =
     (if 2 ^ 1024 \<le> of_int m * pow2 e then (if positive then PosInf else NegInf)
      else if m = 0 then (if positive then Fin 0 else NegZero)
      else Fin (if positive then of_int m * pow2 e else - (of_int m * pow2 e)))"

definition round64 :: "rat \<Rightarrow> jsnum" where
  "round64 x =
     (if x = 0 then Fin 0
      else pack (0 < x) (round_half_even (\<bar>x\<bar> / pow2 (quantum \<bar>x\<bar>))) (quantum \<bar>x\<bar>))"

text \<open>
  \<^verbatim>\<open>x + y\<close> and \<^verbatim>\<open>x / y\<close> on numbers: the exact result, rounded. An exact sum of zero
  is the positive zero, unless both operands are the negative zero. A zero divisor gives
  an infinity, or \<open>NaN\<close> under a zero.
\<close>

fun num_add :: "jsnum \<Rightarrow> jsnum \<Rightarrow> jsnum" where
  "num_add NaN y = NaN"
| "num_add x NaN = NaN"
| "num_add PosInf NegInf = NaN"
| "num_add NegInf PosInf = NaN"
| "num_add PosInf y = PosInf"
| "num_add NegInf y = NegInf"
| "num_add x PosInf = PosInf"
| "num_add x NegInf = NegInf"
| "num_add NegZero NegZero = NegZero"
| "num_add NegZero (Fin b) = Fin b"
| "num_add (Fin a) NegZero = Fin a"
| "num_add (Fin a) (Fin b) = round64 (a + b)"

fun num_div :: "jsnum \<Rightarrow> jsnum \<Rightarrow> jsnum" where
  "num_div NaN y = NaN"
| "num_div x NaN = NaN"
| "num_div (Fin a) (Fin b) =
     (if b = 0 then (if a = 0 then NaN else if 0 < a then PosInf else NegInf)
      else if a = 0 then (if 0 < b then Fin 0 else NegZero)
      else round64 (a / b))"
| "num_div (Fin a) NegZero = (if a = 0 then NaN else if 0 < a then NegInf else PosInf)"
| "num_div NegZero (Fin b) = (if b = 0 then NaN else if 0 < b then NegZero else Fin 0)"
| "num_div NegZero NegZero = NaN"
| "num_div (Fin a) PosInf = (if 0 \<le> a then Fin 0 else NegZero)"
| "num_div (Fin a) NegInf = (if 0 \<le> a then NegZero else Fin 0)"
| "num_div NegZero PosInf = NegZero"
| "num_div NegZero NegInf = Fin 0"
| "num_div PosInf (Fin b) = (if 0 \<le> b then PosInf else NegInf)"
| "num_div PosInf NegZero = NegInf"
| "num_div NegInf (Fin b) = (if 0 \<le> b then NegInf else PosInf)"
| "num_div NegInf NegZero = PosInf"
| "num_div x y = NaN"

text \<open>
  \<^verbatim>\<open>Number(v)\<close>: the conversion of \<open>undefined\<close>, \<open>null\<close> and booleans is fixed; parsing a
  string and converting an object belong to the environment.
\<close>

fun to_number :: "env \<Rightarrow> jsval \<Rightarrow> jsnum" where
  "to_number E (JNum n) = n"
| "to_number E JUndefined = NaN"
| "to_number E JNull = Fin 0"
| "to_number E (JBool b) = Fin (if b then 1 else 0)"
| "to_number E v = number_of E v"

fun numeric_operand :: "jsval \<Rightarrow> bool" where
  "numeric_operand (JNum n) = True"
| "numeric_operand JUndefined = True"
| "numeric_operand JNull = True"
| "numeric_operand (JBool b) = True"
| "numeric_operand v = False"

text \<open>
  \<^verbatim>\<open>a + b\<close>: numeric addition when neither operand is a string or an object; otherwise
  the result of the conversions and the concatenation is the environment's.
\<close>

definition js_plus :: "env \<Rightarrow> jsval \<Rightarrow> jsval \<Rightarrow> jsval" where
  "js_plus E a b =
     (if numeric_operand a \<and> numeric_operand b
      then JNum (num_add (to_number E a) (to_number E b))
      else plus_coerced E a b)"

definition js_divide :: "env \<Rightarrow> jsval \<Rightarrow> jsval \<Rightarrow> jsval" where
  "js_divide E a b = JNum (num_div (to_number E a) (to_number E b))"

text \<open>\<^verbatim>\<open>a || b\<close>\<close>

definition js_or :: "jsval \<Rightarrow> jsval \<Rightarrow> jsval" where
  "js_or a b = (if truthy a then a else b)"

subsection \<open>Properties and object literals\<close>

definition lookup :: "props \<Rightarrow> string \<Rightarrow> jsval" where
  "lookup ps k = (case map_of ps k of None \<Rightarrow> JUndefined | Some v \<Rightarrow> v)"

text \<open>
  Reading property \<open>k\<close> of a value that is neither \<open>undefined\<close> nor \<open>null\<close>. A plain
  object gives its own property or \<open>undefined\<close>, a string and an array have their
  \<open>length\<close>, a function its arity; a number, a boolean, a timestamp and a date have
  no \<open>length\<close>. Any other read is the environment's.
\<close>

fun read_prop :: "env \<Rightarrow> jsval \<Rightarrow> string \<Rightarrow> jsval" where
  "read_prop E (JObj ps) k = lookup ps k"
| "read_prop E (JStr s) k =
     (if k = ''length'' then JNum (Fin (of_nat (length s))) else host_prop E (JStr s) k)"
| "read_prop E (JArr xs) k =
     (if k = ''length'' then JNum (Fin (of_nat (length xs))) else host_prop E (JArr xs) k)"
| "read_prop E (JFun a) k =
     (if k = ''length'' then JNum (Fin (of_nat a)) else host_prop E (JFun a) k)"
| "read_prop E v k = (if k = ''length'' then JUndefined else host_prop E v k)"

text \<open>\<^verbatim>\<open>v.k\<close>: a \<open>TypeError\<close> on \<open>undefined\<close> and \<open>null\<close>.\<close>

definition get_prop :: "env \<Rightarrow> jsval \<Rightarrow> string \<Rightarrow> js_error + jsval" where
  "get_prop E v k =
     (if nullish v then Inl (TypeError (''cannot read property '' @ k)) else Inr (read_prop E v k))"

text \<open>\<^verbatim>\<open>v?.k\<close>: \<open>undefined\<close> on \<open>undefined\<close> and \<open>null\<close>.\<close>

definition opt_prop :: "env \<Rightarrow> jsval \<Rightarrow> string \<Rightarrow> jsval" where
  "opt_prop E v k = (if nullish v then JUndefined else read_prop E v k)"

text \<open>
  \<^verbatim>\<open>{...v}\<close>: the own enumerable properties of \<open>v\<close>. Spreading \<open>undefined\<close>, \<open>null\<close>, a
  boolean or a number adds nothing.
\<close>

fun spread :: "env \<Rightarrow> jsval \<Rightarrow> props" where
  "spread E (JObj ps) = ps"
| "spread E JUndefined = []"
| "spread E JNull = []"
| "spread E (JBool b) = []"
| "spread E (JNum n) = []"
| "spread E v = own_props E v"

text \<open>
  Defining property \<open>k\<close> in an object literal: a key already present keeps its place and
  takes the new value, a new key goes last.
\<close>

definition set_prop :: "string \<Rightarrow> jsval \<Rightarrow> props \<Rightarrow> props" where
  "set_prop k v ps = AList.update k v ps"

definition assign :: "props \<Rightarrow> props \<Rightarrow> props" where
  "assign target src = foldl (\<lambda>acc (k, v). set_prop k v acc) target src"

text \<open>\<^verbatim>\<open>v.toDate()\<close>\<close>

fun to_date :: "env \<Rightarrow> jsval \<Rightarrow> js_error + jsval" where
  "to_date E (JTimestamp t) = Inr (JDate t)"
| "to_date E JUndefined = Inl (TypeError ''cannot read property toDate'')"
| "to_date E JNull = Inl (TypeError ''cannot read property toDate'')"
| "to_date E v = host_call E v ''toDate''"

section \<open>The query composer\<close>

text \<open>\<^verbatim>\<open>query(q, c)\<close> returns a new query with \<open>c\<close> added after the constraints of \<open>q\<close>.\<close>

definition query_add :: "query \<Rightarrow> constraint \<Rightarrow> query" where
  "query_add q c = q\<lparr>q_constraints := q_constraints q @ [c]\<rparr>"

definition query_of :: "ref \<Rightarrow> query" where
  "query_of r = \<lparr>q_source = r, q_constraints = []\<rparr>"

text \<open>
  \<^verbatim>\<open>query(q, where(field, op, value))\<close>. The store library refuses \<open>undefined\<close> as the
  value of a filter and throws; the composer's own values are otherwise strings and
  numbers, which it accepts. What the library makes of a value of another kind (a
  function, an object) is not modelled: such a value is accepted here.
\<close>

definition query_where :: "query \<Rightarrow> string \<Rightarrow> string \<Rightarrow> jsval \<Rightarrow> js_error + query" where
  "query_where q field opr v =
     (if v = JUndefined then Inl (SdkError ''invalid-argument'')
      else Inr (query_add q (Where field opr v)))"

text \<open>
  \<^verbatim>\<open>applyQueryFilters(q, { category, city, price, sort })\<close>. Destructuring \<open>undefined\<close> or
  \<open>null\<close> is a \<open>TypeError\<close>. A statement that throws ends the function.
\<close>

definition applyQueryFilters :: "env \<Rightarrow> query \<Rightarrow> jsval \<Rightarrow> js_error + query" where
  "applyQueryFilters E q filters =
     (if nullish filters then Inl (TypeError ''cannot destructure filters'')
      else
        let category = read_prop E filters ''category'';
            city = read_prop E filters ''city'';
            price = read_prop E filters ''price'';
            sort = read_prop E filters ''sort''
        in case (if truthy category
                 then query_where q ''category'' ''=='' category else Inr q) of
             Inl e \<Rightarrow> Inl e
           | Inr q1 \<Rightarrow>
        (case (if truthy city
               then query_where q1 ''city'' ''=='' city else Inr q1) of
             Inl e \<Rightarrow> Inl e
           | Inr q2 \<Rightarrow>
        (case (if truthy price
               then query_where q2 ''price'' ''=='' (read_prop E price ''length'')
               else Inr q2) of
             Inl e \<Rightarrow> Inl e
           | Inr q3 \<Rightarrow>
               Inr (if sort = JStr ''Rating'' \<or> \<not> truthy sort
                    then query_add q3 (OrderBy ''avgRating'' ''desc'')
                    else if sort = JStr ''Review''
                    then query_add q3 (OrderBy ''numRatings'' ''desc'')
                    else q3))))"

section \<open>The store\<close>

text \<open>
  The store library is not part of the module. References are built structurally; the
  library may refuse one (\<open>ref_rejects\<close>), a read (\<open>get_rejects\<close>), a write
  (\<open>write_rejects\<close>), a commit (\<open>commit_rejects\<close>) or a subscription
  (\<open>subscribe_rejects\<close>). The path \<^verbatim>\<open>restaurants/${restaurantId}/ratings\<close> is kept as its
  three segments.
\<close>

definition mk_ref :: "env \<Rightarrow> ref \<Rightarrow> js_error + ref" where
  "mk_ref E r = (case ref_rejects E r of Some m \<Rightarrow> Inl (SdkError m) | None \<Rightarrow> Inr r)"

text \<open>\<^verbatim>\<open>collection(db, seg, ...)\<close> and \<^verbatim>\<open>doc(db, seg, ...)\<close>\<close>

definition collection :: "env \<Rightarrow> jsval \<Rightarrow> jsval list \<Rightarrow> js_error + ref" where
  "collection E db segs = mk_ref E (Ref db segs)"

definition doc :: "env \<Rightarrow> jsval \<Rightarrow> jsval list \<Rightarrow> js_error + ref" where
  "doc E db segs = mk_ref E (Ref db segs)"

text \<open>\<^verbatim>\<open>doc(coll, id)\<close>, and \<^verbatim>\<open>doc(coll)\<close> with an identifier the store generates.\<close>

fun doc_in :: "env \<Rightarrow> ref \<Rightarrow> jsval \<Rightarrow> js_error + ref" where
  "doc_in E (Ref db segs) ident = mk_ref E (Ref db (segs @ [ident]))"

definition doc_auto :: "env \<Rightarrow> ref \<Rightarrow> js_error + ref" where
  "doc_auto E coll = doc_in E coll (JStr (auto_id E))"

text \<open>
  Modelled from the spec: the store's reads. Reading a document that does not exist yields
  an empty snapshot, whose \<^verbatim>\<open>data()\<close> is \<open>undefined\<close>.
\<close>

definition snap_data :: "(ref \<times> props) list \<Rightarrow> ref \<Rightarrow> jsval" where
  "snap_data ds r = (case map_of ds r of None \<Rightarrow> JUndefined | Some ps \<Rightarrow> JObj ps)"

definition getDoc :: "env \<Rightarrow> world \<Rightarrow> ref \<Rightarrow> world \<times> (js_error + jsval)" where
  "getDoc E w r =
     (let w1 = w\<lparr>calls := calls w @ [CGetDoc r]\<rparr>
      in case get_rejects E r of
           Some m \<Rightarrow> (w1, Inl (SdkError m))
         | None \<Rightarrow> (w1, Inr (snap_data (docs w) r)))"

definition getDocs ::
  "env \<Rightarrow> world \<Rightarrow> query \<Rightarrow> world \<times> (js_error + (string \<times> props) list)" where
  "getDocs E w q =
     (let w1 = w\<lparr>calls := calls w @ [CGetDocs q]\<rparr>
      in case run_query E (docs w) q of
           Inl m \<Rightarrow> (w1, Inl (SdkError m))
         | Inr rs \<Rightarrow> (w1, Inr rs))"

text \<open>
  \<^verbatim>\<open>onSnapshot(target, listener)\<close> registers the listener and returns the unsubscribe
  function. Deliveries to the listener happen later and are not part of the call.
\<close>

definition onSnapshot :: "env \<Rightarrow> world \<Rightarrow> sdk_call \<Rightarrow> world \<times> (js_error + jsval)" where
  "onSnapshot E w c =
     (let w1 = w\<lparr>calls := calls w @ [c]\<rparr>
      in case subscribe_rejects E c of
           Some m \<Rightarrow> (w1, Inl (SdkError m))
         | None \<Rightarrow> (w1, Inr (JFun 0)))"

subsection \<open>Transactions\<close>

record tx =
  tx_docs :: "(ref \<times> props) list"
  tx_writes :: "tx_write list"

definition tx_get :: "env \<Rightarrow> tx \<Rightarrow> ref \<Rightarrow> js_error + jsval" where
  "tx_get E t r =
     (case get_rejects E r of
        Some m \<Rightarrow> Inl (SdkError m)
      | None \<Rightarrow> Inr (snap_data (tx_docs t) r))"

definition tx_put :: "env \<Rightarrow> tx \<Rightarrow> tx_write \<Rightarrow> js_error + tx" where
  "tx_put E t x =
     (case write_rejects E x of
        Some m \<Rightarrow> Inl (SdkError m)
      | None \<Rightarrow> Inr (t\<lparr>tx_writes := tx_writes t @ [x]\<rparr>))"

text \<open>
  Modelled from the spec: the store's transaction primitive (atomic commit or abort). An
  update of a document that does not exist fails the commit; a set creates or replaces the
  document. One attempt is modelled; a conflict the store could not resolve by retrying
  is a rejected commit.
\<close>

fun apply_write :: "(ref \<times> props) list \<Rightarrow> tx_write \<Rightarrow> (ref \<times> props) list option" where
  "apply_write ds (TxUpdate r fs) =
     (case map_of ds r of
        None \<Rightarrow> None
      | Some old \<Rightarrow> Some (AList.update r (assign old fs) ds))"
| "apply_write ds (TxSet r fs) = Some (AList.update r fs ds)"

fun apply_writes :: "(ref \<times> props) list \<Rightarrow> tx_write list \<Rightarrow> (ref \<times> props) list option" where
  "apply_writes ds [] = Some ds"
| "apply_writes ds (x # xs) =
     (case apply_write ds x of None \<Rightarrow> None | Some ds' \<Rightarrow> apply_writes ds' xs)"

definition runTransaction ::
  "env \<Rightarrow> world \<Rightarrow> (tx \<Rightarrow> js_error + tx) \<Rightarrow> world \<times> (js_error + unit)" where
  "runTransaction E w body =
     (let w1 = w\<lparr>calls := calls w @ [CRunTransaction]\<rparr>
      in case body \<lparr>tx_docs = docs w, tx_writes = []\<rparr> of
           Inl e \<Rightarrow> (w1, Inl e)
         | Inr t \<Rightarrow>
             (case commit_rejects E (tx_writes t) of
                Some m \<Rightarrow> (w1, Inl (SdkError m))
              | None \<Rightarrow>
                  (case apply_writes (docs w) (tx_writes t) of
                     None \<Rightarrow> (w1, Inl (SdkError ''not-found''))
                   | Some ds \<Rightarrow> (w1\<lparr>docs := ds\<rparr>, Inr ()))))"

section \<open>The rating aggregator\<close>

text \<open>
  \<^verbatim>\<open>updateWithRating(transaction, docRef, newRatingDocument, review)\<close>. In the branch that
  reads \<^verbatim>\<open>data.numRatings\<close> the test \<^verbatim>\<open>data?.numRatings\<close> has succeeded, so \<open>data\<close> is
  neither \<open>undefined\<close> nor \<open>null\<close> there.
\<close>

definition updateWithRating :: "env \<Rightarrow> tx \<Rightarrow> ref \<Rightarrow> ref \<Rightarrow> jsval \<Rightarrow> js_error + tx" where
  "updateWithRating E t docRef newRatingDocument review =
     (case tx_get E t docRef of
        Inl e \<Rightarrow> Inl e
      | Inr data \<Rightarrow>
          let newNumRatings =
                (if truthy (opt_prop E data ''numRatings'')
                 then js_plus E (read_prop E data ''numRatings'') (JNum (Fin 1))
                 else JNum (Fin 1))
          in case get_prop E review ''rating'' of
               Inl e \<Rightarrow> Inl e
             | Inr rating \<Rightarrow>
                 let newSumRating =
                       js_plus E (js_or (opt_prop E data ''sumRating'') (JNum (Fin 0)))
                         (JNum (to_number E rating));
                     newAverage = js_divide E newSumRating newNumRatings
                 in case tx_put E t (TxUpdate docRef
                           [(''numRatings'', newNumRatings),
                            (''sumRating'', newSumRating),
                            (''avgRating'', newAverage)]) of
                      Inl e \<Rightarrow> Inl e
                    | Inr t1 \<Rightarrow>
                        tx_put E t1 (TxSet newRatingDocument
                          (set_prop ''timestamp'' (JTimestamp (clock E)) (spread E review))))"

text \<open>The body of the \<^verbatim>\<open>try\<close> block of \<^verbatim>\<open>addReviewToRestaurant\<close>.\<close>

definition add_review_try ::
  "env \<Rightarrow> world \<Rightarrow> jsval \<Rightarrow> jsval \<Rightarrow> jsval \<Rightarrow> world \<times> (js_error + unit)" where
  "add_review_try E w db restaurantId review =
     (case collection E db [JStr ''restaurants''] of
        Inl e \<Rightarrow> (w, Inl e)
      | Inr restaurants \<Rightarrow>
     (case doc_in E restaurants restaurantId of
        Inl e \<Rightarrow> (w, Inl e)
      | Inr docRef \<Rightarrow>
     (case collection E db [JStr ''restaurants'', restaurantId, JStr ''ratings''] of
        Inl e \<Rightarrow> (w, Inl e)
      | Inr ratings \<Rightarrow>
     (case doc_auto E ratings of
        Inl e \<Rightarrow> (w, Inl e)
      | Inr newRatingDocument \<Rightarrow>
          runTransaction E w
            (\<lambda>transaction. updateWithRating E transaction docRef newRatingDocument review)))))"

text \<open>
  \<^verbatim>\<open>addReviewToRestaurant(db, restaurantId, review)\<close>. \<open>Inl e\<close> is the promise rejected with
  \<open>e\<close>, \<open>Inr v\<close> the promise fulfilled with \<open>v\<close>.
\<close>

definition addReviewToRestaurant ::
  "env \<Rightarrow> world \<Rightarrow> jsval \<Rightarrow> jsval \<Rightarrow> jsval \<Rightarrow> world \<times> (js_error + jsval)" where
  "addReviewToRestaurant E w db restaurantId review =
     (if \<not> truthy restaurantId
      then (w, Inl (Error ''No restaurant ID has been provided.''))
      else if \<not> truthy review
      then (w, Inl (Error ''A valid review has not been provided.''))
      else
        (case add_review_try E w db restaurantId review of
           (w1, Inl error) \<Rightarrow>
             (w1\<lparr>console := console w1 @
                  [ConsoleError ''There was an error adding the rating to the restaurant'' error]\<rparr>,
              Inl error)
         | (w1, Inr u) \<Rightarrow> (w1, Inr JUndefined)))"

section \<open>Read and subscription wrappers\<close>

text \<open>
  The mapping \<^verbatim>\<open>{ ...base, ...data, timestamp: data.timestamp.toDate() }\<close> of a snapshot
  to a plain record, where \<open>base\<close> holds the properties written before the spread.
\<close>

definition plain_record :: "env \<Rightarrow> props \<Rightarrow> jsval \<Rightarrow> js_error + jsval" where
  "plain_record E base data =
     (case get_prop E data ''timestamp'' of
        Inl e \<Rightarrow> Inl e
      | Inr ts \<Rightarrow>
          (case to_date E ts of
             Inl e \<Rightarrow> Inl e
           | Inr d \<Rightarrow> Inr (JObj (set_prop ''timestamp'' d (assign base (spread E data))))))"

text \<open>\<^verbatim>\<open>results.docs.map((doc) => ({ id: doc.id, ...doc.data(), timestamp: ... }))\<close>\<close>

fun map_docs :: "env \<Rightarrow> (string \<times> props) list \<Rightarrow> js_error + jsval list" where
  "map_docs E [] = Inr []"
| "map_docs E ((ident, ps) # rest) =
     (case plain_record E [(''id'', JStr ident)] (JObj ps) of
        Inl e \<Rightarrow> Inl e
      | Inr x \<Rightarrow>
          (case map_docs E rest of
             Inl e \<Rightarrow> Inl e
           | Inr xs \<Rightarrow> Inr (x # xs)))"

definition fetch_list :: "env \<Rightarrow> world \<Rightarrow> query \<Rightarrow> world \<times> (js_error + jsval)" where
  "fetch_list E w q =
     (case getDocs E w q of
        (w1, Inl e) \<Rightarrow> (w1, Inl e)
      | (w1, Inr results) \<Rightarrow>
          (case map_docs E results of
             Inl e \<Rightarrow> (w1, Inl e)
           | Inr xs \<Rightarrow> (w1, Inr (JArr xs))))"

text \<open>
  \<^verbatim>\<open>getRestaurants(db = db, filters = {})\<close>. A default initialiser runs when the argument
  is \<open>undefined\<close>. The initialiser of \<open>db\<close> names the parameter \<open>db\<close> itself, which has no
  value yet at that point: reading it is a \<open>ReferenceError\<close>.
\<close>

definition getRestaurants ::
  "env \<Rightarrow> world \<Rightarrow> jsval \<Rightarrow> jsval \<Rightarrow> world \<times> (js_error + jsval)" where
  "getRestaurants E w db_arg filters_arg =
     (if db_arg = JUndefined
      then (w, Inl (ReferenceError ''cannot access db before initialization''))
      else
        let filters = (if filters_arg = JUndefined then JObj [] else filters_arg)
        in case collection E db_arg [JStr ''restaurants''] of
             Inl e \<Rightarrow> (w, Inl e)
           | Inr restaurants \<Rightarrow>
               (case applyQueryFilters E (query_of restaurants) filters of
                  Inl e \<Rightarrow> (w, Inl e)
                | Inr q \<Rightarrow> fetch_list E w q))"

text \<open>\<^verbatim>\<open>getRestaurantsSnapshot(cb, filters = {})\<close>, on the module's own store handle.\<close>

definition getRestaurantsSnapshot ::
  "env \<Rightarrow> world \<Rightarrow> jsval \<Rightarrow> jsval \<Rightarrow> world \<times> (js_error + jsval)" where
  "getRestaurantsSnapshot E w cb filters_arg =
     (if \<not> is_function cb
      then (w\<lparr>console := console w @
                [ConsoleLog ''Error: The callback parameter is not a function'' None]\<rparr>,
            Inr JUndefined)
      else
        let filters = (if filters_arg = JUndefined then JObj [] else filters_arg)
        in case collection E (module_db E) [JStr ''restaurants''] of
             Inl e \<Rightarrow> (w, Inl e)
           | Inr restaurants \<Rightarrow>
               (case applyQueryFilters E (query_of restaurants) filters of
                  Inl e \<Rightarrow> (w, Inl e)
                | Inr q \<Rightarrow> onSnapshot E w (COnSnapshotQuery q)))"

text \<open>\<^verbatim>\<open>getRestaurantById(db, restaurantId)\<close>\<close>

definition getRestaurantById ::
  "env \<Rightarrow> world \<Rightarrow> jsval \<Rightarrow> jsval \<Rightarrow> world \<times> (js_error + jsval)" where
  "getRestaurantById E w db restaurantId =
     (if \<not> truthy restaurantId
      then (w\<lparr>console := console w @
                [ConsoleLog ''Error: Invalid ID received: '' (Some restaurantId)]\<rparr>,
            Inr JUndefined)
      else
        (case doc E db [JStr ''restaurants'', restaurantId] of
           Inl e \<Rightarrow> (w, Inl e)
         | Inr docRef \<Rightarrow>
             (case getDoc E w docRef of
                (w1, Inl e) \<Rightarrow> (w1, Inl e)
              | (w1, Inr data) \<Rightarrow> (w1, plain_record E [] data))))"

text \<open>\<^verbatim>\<open>getRestaurantSnapshotById(restaurantId, cb)\<close>\<close>

definition getRestaurantSnapshotById ::
  "env \<Rightarrow> world \<Rightarrow> jsval \<Rightarrow> jsval \<Rightarrow> world \<times> (js_error + jsval)" where
  "getRestaurantSnapshotById E w restaurantId cb =
     (if \<not> truthy restaurantId
      then (w\<lparr>console := console w @
                [ConsoleLog ''Error: Invalid ID received: '' (Some restaurantId)]\<rparr>,
            Inr JUndefined)
      else if \<not> is_function cb
      then (w\<lparr>console := console w @
                [ConsoleLog ''Error: The callback parameter is not a function'' None]\<rparr>,
            Inr JUndefined)
      else
        (case doc E (module_db E) [JStr ''restaurants'', restaurantId] of
           Inl e \<Rightarrow> (w, Inl e)
         | Inr docRef \<Rightarrow> onSnapshot E w (COnSnapshotDoc docRef)))"

text \<open>The query of both review readers: the ratings of a restaurant, newest first.\<close>

definition reviews_query :: "env \<Rightarrow> jsval \<Rightarrow> jsval \<Rightarrow> js_error + query" where
  "reviews_query E db restaurantId =
     (case collection E db [JStr ''restaurants'', restaurantId, JStr ''ratings''] of
        Inl e \<Rightarrow> Inl e
      | Inr ratings \<Rightarrow> Inr (query_add (query_of ratings) (OrderBy ''timestamp'' ''desc'')))"

text \<open>\<^verbatim>\<open>getReviewsByRestaurantId(db, restaurantId)\<close>\<close>

definition getReviewsByRestaurantId ::
  "env \<Rightarrow> world \<Rightarrow> jsval \<Rightarrow> jsval \<Rightarrow> world \<times> (js_error + jsval)" where
  "getReviewsByRestaurantId E w db restaurantId =
     (if \<not> truthy restaurantId
      then (w\<lparr>console := console w @
                [ConsoleLog ''Error: Invalid restaurantId received: '' (Some restaurantId)]\<rparr>,
            Inr JUndefined)
      else
        (case reviews_query E db restaurantId of
           Inl e \<Rightarrow> (w, Inl e)
         | Inr q \<Rightarrow> fetch_list E w q))"

text \<open>
  \<^verbatim>\<open>getReviewsSnapshotByRestaurantId(restaurantId, cb)\<close>. Unlike the two other
  subscription helpers it does not test \<open>cb\<close>.
\<close>

definition getReviewsSnapshotByRestaurantId ::
  "env \<Rightarrow> world \<Rightarrow> jsval \<Rightarrow> jsval \<Rightarrow> world \<times> (js_error + jsval)" where
  "getReviewsSnapshotByRestaurantId E w restaurantId cb =
     (if \<not> truthy restaurantId
      then (w\<lparr>console := console w @
                [ConsoleLog ''Error: Invalid restaurantId received: '' (Some restaurantId)]\<rparr>,
            Inr JUndefined)
      else
        (case reviews_query E (module_db E) restaurantId of
           Inl e \<Rightarrow> (w, Inl e)
         | Inr q \<Rightarrow> onSnapshot E w (COnSnapshotQuery q)))"

text \<open>
  An environment for evaluating the module on concrete inputs: a store library that
  refuses nothing and answers every query with no rows. Its conversions are placeholders;
  the evaluations below use numbers, strings and plain objects only and reach none of them.
\<close>

definition plain_env :: env where
  "plain_env =
     \<lparr>number_of = (\<lambda>v. NaN),
      plus_coerced = (\<lambda>a b. JUndefined),
      host_prop = (\<lambda>v k. JUndefined),
      own_props = (\<lambda>v. []),
      host_call = (\<lambda>v k. Inl (TypeError ''not a function'')),
      module_db = JObj [(''app'', JStr ''default'')],
      clock = 1700000000000,
      auto_id = ''r0'',
      ref_rejects = (\<lambda>r. None),
      get_rejects = (\<lambda>r. None),
      write_rejects = (\<lambda>x. None),
      commit_rejects = (\<lambda>xs. None),
      run_query = (\<lambda>ds q. Inr []),
      subscribe_rejects = (\<lambda>c. None)\<rparr>"

section \<open>Vocabulary of the statements\<close>


text \<open>An option of the composer as its callers pass it: a string, or a falsy value.\<close>

fun text_option :: "jsval \<Rightarrow> bool" where
  "text_option (JStr s) = True"
| "text_option v = (\<not> truthy v)"

fun is_ordering :: "constraint \<Rightarrow> bool" where
  "is_ordering (OrderBy f d) = True"
| "is_ordering (Where f opr v) = False"

fun on_field :: "string \<Rightarrow> constraint \<Rightarrow> bool" where
  "on_field f (Where g opr v) = (f = g)"
| "on_field f (OrderBy g d) = False"

text \<open>The constraints lines 100 to 112 and lines 115 to 119 of the composer add.\<close>

definition added_equalities :: "env \<Rightarrow> jsval \<Rightarrow> constraint list" where
  "added_equalities E filters =
     (if truthy (read_prop E filters ''category'')
      then [Where ''category'' ''=='' (read_prop E filters ''category'')] else []) @
     (if truthy (read_prop E filters ''city'')
      then [Where ''city'' ''=='' (read_prop E filters ''city'')] else []) @
     (if truthy (read_prop E filters ''price'')
      then [Where ''price'' ''=='' (read_prop E (read_prop E filters ''price'') ''length'')]
      else [])"

definition added_ordering :: "env \<Rightarrow> jsval \<Rightarrow> constraint list" where
  "added_ordering E filters =
     (if read_prop E filters ''sort'' = JStr ''Rating'' \<or>
         \<not> truthy (read_prop E filters ''sort'')
      then [OrderBy ''avgRating'' ''desc'']
      else if read_prop E filters ''sort'' = JStr ''Review''
      then [OrderBy ''numRatings'' ''desc'']
      else [])"

section \<open>Properties of the arithmetic\<close>

lemma floor_numeral_quotient:
  "\<lfloor>numeral a / numeral b :: rat\<rfloor> = numeral a div numeral b"
  using floor_divide_of_int_eq [of "numeral a" "numeral b", where ?'a = rat] by simp

lemma ceiling_numeral_quotient:
  "\<lceil>numeral a / numeral b :: rat\<rceil> = - ((- numeral a) div numeral b)"
  using floor_divide_of_int_eq [of "- numeral a" "numeral b", where ?'a = rat]
  by (simp add: ceiling_def)

lemmas binary64_eval =
  round64_def pack_def quantum_def round_half_even_def nearest_even_def pow2_def
  floor_log2_def floor_numeral_quotient ceiling_numeral_quotient

text \<open>Small integers are exact; ten thirds is not, and rounds up in its last bit.\<close>

lemma round64_examples:
  "round64 1 = Fin 1"
  "round64 3 = Fin 3"
  "round64 4 = Fin 4"
  "round64 5 = Fin 5"
  "round64 10 = Fin 10"
  "round64 (10 / 3) = Fin (7505999378950827 / 2251799813685248)"
  by (simp_all add: binary64_eval)

text \<open>
  Where rounding and the zeros show: \<^verbatim>\<open>10 / 3\<close> is \<^verbatim>\<open>3.3333333333333335\<close>,
  \<^verbatim>\<open>2 ** 53 + 1\<close> is \<^verbatim>\<open>2 ** 53\<close> again, \<^verbatim>\<open>0.1 + 0.2\<close> is \<^verbatim>\<open>0.30000000000000004\<close>,
  \<^verbatim>\<open>0 / -5\<close> is the negative zero, \<^verbatim>\<open>1 / 0\<close> is \<^verbatim>\<open>Infinity\<close> and \<^verbatim>\<open>0 / 0\<close> is \<open>NaN\<close>.
\<close>

lemma rounding_examples:
  "num_div (Fin 10) (Fin 3) = Fin (7505999378950827 / 2251799813685248)"
  "num_add (Fin (2 ^ 53)) (Fin 1) = Fin (2 ^ 53)"
  "num_add (Fin (3602879701896397 / 2 ^ 55)) (Fin (3602879701896397 / 2 ^ 54)) =
     Fin (1351079888211149 / 2 ^ 52)"
  "num_div (Fin 0) (Fin (- 5)) = NegZero"
  "num_div (Fin 1) (Fin 0) = PosInf"
  "num_div (Fin 0) (Fin 0) = NaN"
  by (simp_all add: binary64_eval)

section \<open>Properties of the rating aggregator\<close>





text \<open>
  The same review submitted through \<open>addReviewToRestaurant\<close>: after the commit the
  restaurant holds the three new values beside its other fields, and the review is stored.
\<close>

lemma first_review_roundtrip:
  "addReviewToRestaurant plain_env
     \<lparr>docs = [(Ref JNull [JStr ''restaurants'', JStr ''r1''],
               [(''name'', JStr ''Cafe''), (''numRatings'', JNum (Fin 0)),
                (''sumRating'', JNum (Fin 0))])],
      calls = [], console = []\<rparr>
     JNull (JStr ''r1'') (JObj [(''rating'', JNum (Fin 4))]) =
   (\<lparr>docs = [(Ref JNull [JStr ''restaurants'', JStr ''r1''],
               [(''name'', JStr ''Cafe''), (''numRatings'', JNum (Fin 1)),
                (''sumRating'', JNum (Fin 4)), (''avgRating'', JNum (Fin 4))]),
              (Ref JNull [JStr ''restaurants'', JStr ''r1'', JStr ''ratings'', JStr ''r0''],
               [(''rating'', JNum (Fin 4)), (''timestamp'', JTimestamp 1700000000000)])],
      calls = [CRunTransaction], console = []\<rparr>,
    Inr JUndefined)"
  by (simp add: addReviewToRestaurant_def add_review_try_def collection_def doc_auto_def
      mk_ref_def runTransaction_def updateWithRating_def tx_get_def tx_put_def snap_data_def
      get_prop_def opt_prop_def lookup_def js_plus_def js_or_def js_divide_def set_prop_def
      assign_def plain_env_def Let_def round64_examples)

text \<open>A third review, rated 4, on a restaurant at \<open>{numRatings: 2, sumRating: 6}\<close>.\<close>

lemma later_review_roundtrip:
  "addReviewToRestaurant plain_env
     \<lparr>docs = [(Ref JNull [JStr ''restaurants'', JStr ''r2''],
               [(''numRatings'', JNum (Fin 2)), (''sumRating'', JNum (Fin 6)),
                (''avgRating'', JNum (Fin 3))])],
      calls = [], console = []\<rparr>
     JNull (JStr ''r2'') (JObj [(''rating'', JNum (Fin 4))]) =
   (\<lparr>docs = [(Ref JNull [JStr ''restaurants'', JStr ''r2''],
               [(''numRatings'', JNum (Fin 3)), (''sumRating'', JNum (Fin 10)),
                (''avgRating'', JNum (Fin (7505999378950827 / 2251799813685248)))]),
              (Ref JNull [JStr ''restaurants'', JStr ''r2'', JStr ''ratings'', JStr ''r0''],
               [(''rating'', JNum (Fin 4)), (''timestamp'', JTimestamp 1700000000000)])],
      calls = [CRunTransaction], console = []\<rparr>,
    Inr JUndefined)"
  by (simp add: addReviewToRestaurant_def add_review_try_def collection_def doc_auto_def
      mk_ref_def runTransaction_def updateWithRating_def tx_get_def tx_put_def snap_data_def
      get_prop_def opt_prop_def lookup_def js_plus_def js_or_def js_divide_def set_prop_def
      assign_def plain_env_def Let_def round64_examples)

text \<open>
  C7. The record \<open>updateWithRating\<close> inserts for a review object carries the timestamp
  taken inside the transaction, whatever \<open>timestamp\<close> the payload had, and every other
  field of the payload as it was.
\<close>

theorem review_record_timestamp:
  assumes "updateWithRating E t docRef newRatingDocument (JObj ps) = Inr t'"
  shows "\<exists>fs. last (tx_writes t') = TxSet newRatingDocument fs \<and>
           map_of fs ''timestamp'' = Some (JTimestamp (clock E)) \<and>
           (\<forall>k. k \<noteq> ''timestamp'' \<longrightarrow> map_of fs k = map_of ps k)"
  using assms
  by (auto simp: updateWithRating_def tx_put_def Let_def set_prop_def update_conv'
      split: sum.splits option.splits)

theorem review_record_timestamp_witness:
  "\<exists>fs. last (tx_writes
            \<lparr>tx_docs = [],
             tx_writes =
               [TxUpdate (Ref JNull [JStr ''restaurants'', JStr ''r1''])
                  [(''numRatings'', JNum (Fin 1)), (''sumRating'', JNum (Fin 5)),
                   (''avgRating'', JNum (Fin 5))],
                TxSet (Ref JNull [JStr ''restaurants'', JStr ''r1'', JStr ''ratings'', JStr ''r0''])
                  [(''rating'', JNum (Fin 5)), (''timestamp'', JTimestamp 1700000000000),
                   (''text'', JStr ''fine'')]]\<rparr>) =
          TxSet (Ref JNull [JStr ''restaurants'', JStr ''r1'', JStr ''ratings'', JStr ''r0'']) fs \<and>
        map_of fs ''timestamp'' = Some (JTimestamp (clock plain_env)) \<and>
        (\<forall>k. k \<noteq> ''timestamp'' \<longrightarrow>
           map_of fs k =
           map_of [(''rating'', JNum (Fin 5)), (''timestamp'', JNum (Fin 1)),
                   (''text'', JStr ''fine'')] k)"
proof -
  have h: "updateWithRating plain_env \<lparr>tx_docs = [], tx_writes = []\<rparr>
      (Ref JNull [JStr ''restaurants'', JStr ''r1''])
      (Ref JNull [JStr ''restaurants'', JStr ''r1'', JStr ''ratings'', JStr ''r0''])
      (JObj [(''rating'', JNum (Fin 5)), (''timestamp'', JNum (Fin 1)),
             (''text'', JStr ''fine'')]) =
    Inr \<lparr>tx_docs = [],
         tx_writes =
           [TxUpdate (Ref JNull [JStr ''restaurants'', JStr ''r1''])
              [(''numRatings'', JNum (Fin 1)), (''sumRating'', JNum (Fin 5)),
               (''avgRating'', JNum (Fin 5))],
            TxSet (Ref JNull [JStr ''restaurants'', JStr ''r1'', JStr ''ratings'', JStr ''r0''])
              [(''rating'', JNum (Fin 5)), (''timestamp'', JTimestamp 1700000000000),
               (''text'', JStr ''fine'')]]\<rparr>"
    by (simp add: updateWithRating_def tx_get_def tx_put_def snap_data_def get_prop_def
        opt_prop_def lookup_def js_plus_def js_or_def js_divide_def set_prop_def
        plain_env_def Let_def round64_examples)
  show ?thesis by (rule review_record_timestamp [OF h])
qed

lemma mk_ref_error: "mk_ref E r = Inl e \<Longrightarrow> \<exists>m. e = SdkError m"
  by (auto simp: mk_ref_def split: option.splits)

lemma updateWithRating_error:
  "updateWithRating E t a b review = Inl e \<Longrightarrow>
     (\<exists>m. e = SdkError m) \<or> (\<exists>m. e = TypeError m)"
  by (auto simp: updateWithRating_def tx_get_def tx_put_def get_prop_def Let_def
      split: option.splits sum.splits if_splits)

lemma runTransaction_error:
  assumes "runTransaction E w body = (w1, Inl e)"
  shows "body \<lparr>tx_docs = docs w, tx_writes = []\<rparr> = Inl e \<or> (\<exists>m. e = SdkError m)"
  using assms
  by (auto simp: runTransaction_def Let_def split: option.splits sum.splits)

lemma runTransaction_abort:
  assumes "runTransaction E w body = (w1, Inl e)"
  shows "w1 = w\<lparr>calls := calls w @ [CRunTransaction]\<rparr>"
  using assms
  by (auto simp: runTransaction_def Let_def split: option.splits sum.splits)

lemma doc_in_error: "doc_in E c ident = Inl e \<Longrightarrow> \<exists>m. e = SdkError m"
  by (cases c) (auto dest: mk_ref_error)

lemma add_review_try_error:
  assumes "add_review_try E w db restaurantId review = (w1, Inl e)"
  shows "(\<exists>m. e = SdkError m) \<or> (\<exists>m. e = TypeError m)"
  using assms
  unfolding add_review_try_def collection_def doc_auto_def
  by (auto split: sum.splits
      dest!: mk_ref_error doc_in_error runTransaction_error updateWithRating_error)

lemma add_review_try_abort:
  assumes "add_review_try E w db restaurantId review = (w1, Inl e)"
  shows "docs w1 = docs w \<and> console w1 = console w"
  using assms
  unfolding add_review_try_def
  by (auto split: sum.splits dest!: runTransaction_abort)

text \<open>
  The three kinds of failure of the transaction reach the end of the \<^verbatim>\<open>try\<close> block as
  they were raised: a rejected read, a write refused inside the callback, a rejected
  commit.
\<close>

lemma transaction_failures_surface:
  assumes refs: "\<forall>r. ref_rejects E r = None"
  shows "get_rejects E (Ref db [JStr ''restaurants'', restaurantId]) = Some m \<Longrightarrow>
           snd (add_review_try E w db restaurantId review) = Inl (SdkError m)"
    and "get_rejects E (Ref db [JStr ''restaurants'', restaurantId]) = None \<Longrightarrow>
         \<not> nullish review \<Longrightarrow> \<forall>x. write_rejects E x = Some m \<Longrightarrow>
           snd (add_review_try E w db restaurantId review) = Inl (SdkError m)"
    and "get_rejects E (Ref db [JStr ''restaurants'', restaurantId]) = None \<Longrightarrow>
         \<not> nullish review \<Longrightarrow> \<forall>x. write_rejects E x = None \<Longrightarrow>
         \<forall>xs. commit_rejects E xs = Some m \<Longrightarrow>
           snd (add_review_try E w db restaurantId review) = Inl (SdkError m)"
  using refs
  by (simp_all add: add_review_try_def collection_def doc_auto_def mk_ref_def
      runTransaction_def updateWithRating_def tx_get_def tx_put_def get_prop_def Let_def)

text \<open>
  C5. With a falsy identifier (absent, or the empty string) \<open>addReviewToRestaurant\<close>
  fails with the module's own error and leaves the world as it was: no call to the store,
  no write, no log. With an identifier but a falsy review it does the same with the second
  message. With both present, whatever happens next is not one of the module's own errors.
\<close>

theorem addReviewToRestaurant_preconditions:
  "(\<not> truthy restaurantId \<longrightarrow>
      addReviewToRestaurant E w db restaurantId review =
        (w, Inl (Error ''No restaurant ID has been provided.''))) \<and>
   (truthy restaurantId \<and> \<not> truthy review \<longrightarrow>
      addReviewToRestaurant E w db restaurantId review =
        (w, Inl (Error ''A valid review has not been provided.''))) \<and>
   (truthy restaurantId \<and> truthy review \<longrightarrow>
      (\<forall>m. snd (addReviewToRestaurant E w db restaurantId review) \<noteq> Inl (Error m)))"
proof -
  have "snd (addReviewToRestaurant E w db restaurantId review) \<noteq> Inl (Error m)"
    if "truthy restaurantId" "truthy review" for m
  proof (cases "add_review_try E w db restaurantId review")
    case (Pair w1 res)
    show ?thesis
    proof (cases res)
      case (Inl e)
      with Pair add_review_try_error [of E w db restaurantId review w1 e] that
      show ?thesis by (auto simp: addReviewToRestaurant_def)
    next
      case (Inr u)
      with Pair that show ?thesis by (simp add: addReviewToRestaurant_def)
    qed
  qed
  then show ?thesis by (simp add: addReviewToRestaurant_def)
qed

theorem addReviewToRestaurant_preconditions_witness:
  "addReviewToRestaurant plain_env \<lparr>docs = [], calls = [], console = []\<rparr> JNull
     (JStr []) (JObj [(''rating'', JNum (Fin 4))]) =
     (\<lparr>docs = [], calls = [], console = []\<rparr>,
      Inl (Error ''No restaurant ID has been provided.'')) \<and>
   addReviewToRestaurant plain_env \<lparr>docs = [], calls = [], console = []\<rparr> JNull
     JUndefined (JObj [(''rating'', JNum (Fin 4))]) =
     (\<lparr>docs = [], calls = [], console = []\<rparr>,
      Inl (Error ''No restaurant ID has been provided.'')) \<and>
   addReviewToRestaurant plain_env \<lparr>docs = [], calls = [], console = []\<rparr> JNull
     (JStr ''r1'') JUndefined =
     (\<lparr>docs = [], calls = [], console = []\<rparr>,
      Inl (Error ''A valid review has not been provided.'')) \<and>
   (\<forall>m. snd (addReviewToRestaurant plain_env \<lparr>docs = [], calls = [], console = []\<rparr> JNull
              (JStr ''r1'') (JObj [(''rating'', JNum (Fin 4))])) \<noteq> Inl (Error m))"
  using
    addReviewToRestaurant_preconditions [where restaurantId = "JStr []" and E = plain_env
      and w = "\<lparr>docs = [], calls = [], console = []\<rparr>" and db = JNull
      and review = "JObj [(''rating'', JNum (Fin 4))]"]
    addReviewToRestaurant_preconditions [where restaurantId = JUndefined and E = plain_env
      and w = "\<lparr>docs = [], calls = [], console = []\<rparr>" and db = JNull
      and review = "JObj [(''rating'', JNum (Fin 4))]"]
    addReviewToRestaurant_preconditions [where restaurantId = "JStr ''r1''" and E = plain_env
      and w = "\<lparr>docs = [], calls = [], console = []\<rparr>" and db = JNull
      and review = JUndefined]
    addReviewToRestaurant_preconditions [where restaurantId = "JStr ''r1''" and E = plain_env
      and w = "\<lparr>docs = [], calls = [], console = []\<rparr>" and db = JNull
      and review = "JObj [(''rating'', JNum (Fin 4))]"]
  by simp

text \<open>
  C6. When both arguments are present and the \<^verbatim>\<open>try\<close> block raises \<open>e\<close> (a rejected
  read, an error inside the transaction callback, a rejected write or commit),
  \<open>addReviewToRestaurant\<close> fails with that same \<open>e\<close>, the console has gained exactly one
  entry, which carries \<open>e\<close>, and the stored documents are those from before the call.
\<close>

theorem addReviewToRestaurant_failure:
  assumes "truthy restaurantId" and "truthy review"
    and "add_review_try E w db restaurantId review = (w1, Inl e)"
  shows "\<exists>w'. addReviewToRestaurant E w db restaurantId review = (w', Inl e) \<and>
           console w' = console w @
             [ConsoleError ''There was an error adding the rating to the restaurant'' e] \<and>
           docs w' = docs w"
  using assms add_review_try_abort [OF assms(3)]
  by (simp add: addReviewToRestaurant_def)

text \<open>A transaction whose commit the store rejects for good.\<close>

theorem addReviewToRestaurant_failure_witness:
  "\<exists>w'. addReviewToRestaurant (plain_env\<lparr>commit_rejects := (\<lambda>xs. Some ''aborted'')\<rparr>)
            \<lparr>docs = [(Ref JNull [JStr ''restaurants'', JStr ''r1''],
                      [(''numRatings'', JNum (Fin 2)), (''sumRating'', JNum (Fin 7))])],
             calls = [], console = []\<rparr>
            JNull (JStr ''r1'') (JObj [(''rating'', JNum (Fin 4))]) =
          (w', Inl (SdkError ''aborted'')) \<and>
        console w' =
          console \<lparr>docs = [(Ref JNull [JStr ''restaurants'', JStr ''r1''],
                      [(''numRatings'', JNum (Fin 2)), (''sumRating'', JNum (Fin 7))])],
             calls = [], console = []\<rparr> @
          [ConsoleError ''There was an error adding the rating to the restaurant''
             (SdkError ''aborted'')] \<and>
        docs w' =
          docs \<lparr>docs = [(Ref JNull [JStr ''restaurants'', JStr ''r1''],
                      [(''numRatings'', JNum (Fin 2)), (''sumRating'', JNum (Fin 7))])],
             calls = [], console = []\<rparr>"
proof -
  let ?E = "plain_env\<lparr>commit_rejects := (\<lambda>xs. Some ''aborted'')\<rparr>"
  let ?w = "\<lparr>docs = [(Ref JNull [JStr ''restaurants'', JStr ''r1''],
                      [(''numRatings'', JNum (Fin 2)), (''sumRating'', JNum (Fin 7))])],
             calls = [], console = []\<rparr>"
  have h1: "truthy (JStr ''r1'')" by simp
  have h2: "truthy (JObj [(''rating'', JNum (Fin 4))])" by simp
  have h3: "add_review_try ?E ?w JNull (JStr ''r1'') (JObj [(''rating'', JNum (Fin 4))]) =
      (?w\<lparr>calls := [CRunTransaction]\<rparr>, Inl (SdkError ''aborted''))"
    by (simp add: add_review_try_def collection_def doc_auto_def mk_ref_def
        runTransaction_def updateWithRating_def tx_get_def tx_put_def snap_data_def
        get_prop_def opt_prop_def lookup_def js_plus_def js_or_def js_divide_def
        set_prop_def plain_env_def Let_def)
  show ?thesis by (rule addReviewToRestaurant_failure [OF h1 h2 h3])
qed

section \<open>Properties of the query composer\<close>

lemma truthy_defined: "truthy v \<Longrightarrow> v \<noteq> JUndefined"
  by auto

lemma text_option_length:
  "text_option v \<Longrightarrow> truthy v \<Longrightarrow> read_prop E v ''length'' \<noteq> JUndefined"
  by (cases v) auto

text \<open>
  The composer returns a query exactly when the \<open>price\<close> option is falsy or has a
  \<open>length\<close>, and the query is then the given one with the added constraints.
\<close>

lemma applyQueryFilters_result:
  assumes "\<not> nullish filters"
    and "truthy (read_prop E filters ''price'') \<Longrightarrow>
         read_prop E (read_prop E filters ''price'') ''length'' \<noteq> JUndefined"
  shows "applyQueryFilters E q filters =
     Inr (q\<lparr>q_constraints :=
            q_constraints q @ (added_equalities E filters @ added_ordering E filters)\<rparr>)"
  using assms
  by (simp add: applyQueryFilters_def added_equalities_def added_ordering_def
      query_where_def query_add_def Let_def truthy_defined)

lemma applyQueryFilters_Inr:
  assumes "applyQueryFilters E q filters = Inr q'"
  shows "q' = q\<lparr>q_constraints :=
            q_constraints q @ (added_equalities E filters @ added_ordering E filters)\<rparr>"
proof -
  from assms have nn: "\<not> nullish filters"
    by (auto simp: applyQueryFilters_def split: if_splits)
  from assms have "truthy (read_prop E filters ''price'') \<Longrightarrow>
      read_prop E (read_prop E filters ''price'') ''length'' \<noteq> JUndefined"
    by (auto simp: applyQueryFilters_def query_where_def Let_def truthy_defined
        split: if_splits sum.splits)
  with nn assms show ?thesis
    by (simp add: applyQueryFilters_result)
qed

text \<open>
  C2, as the specification states it, fails: a \<open>sort\<close> value that is neither
  \<^verbatim>\<open>"Rating"\<close> nor \<^verbatim>\<open>"Review"\<close> nor falsy, here \<^verbatim>\<open>"Price"\<close>, adds no ordering at all.
\<close>

theorem applyQueryFilters_sort_counterexample:
  "applyQueryFilters plain_env
     \<lparr>q_source = Ref JNull [JStr ''restaurants''], q_constraints = []\<rparr>
     (JObj [(''sort'', JStr ''Price'')]) =
   Inr \<lparr>q_source = Ref JNull [JStr ''restaurants''], q_constraints = []\<rparr>"
  by (simp add: applyQueryFilters_def lookup_def Let_def)

text \<open>
  C2, amended. Whenever the composer returns a query, it has added at most one ordering:
  \<open>numRatings\<close> descending when \<open>sort\<close> is \<^verbatim>\<open>"Review"\<close>, \<open>avgRating\<close> descending when
  \<open>sort\<close> is \<^verbatim>\<open>"Rating"\<close> or falsy (absent), and none for any other value. It returns no
  query when the store library refuses a filter value.
\<close>

theorem applyQueryFilters_ordering:
  assumes "applyQueryFilters E q filters = Inr q'"
  shows "\<exists>cs. q' = q\<lparr>q_constraints := q_constraints q @ cs\<rparr> \<and>
     filter is_ordering cs =
       (if read_prop E filters ''sort'' = JStr ''Review''
        then [OrderBy ''numRatings'' ''desc'']
        else if read_prop E filters ''sort'' = JStr ''Rating'' \<or>
                \<not> truthy (read_prop E filters ''sort'')
        then [OrderBy ''avgRating'' ''desc'']
        else [])"
proof (intro exI conjI)
  show "q' = q\<lparr>q_constraints :=
           q_constraints q @ (added_equalities E filters @ added_ordering E filters)\<rparr>"
    using assms by (rule applyQueryFilters_Inr)
  show "filter is_ordering (added_equalities E filters @ added_ordering E filters) =
       (if read_prop E filters ''sort'' = JStr ''Review''
        then [OrderBy ''numRatings'' ''desc'']
        else if read_prop E filters ''sort'' = JStr ''Rating'' \<or>
                \<not> truthy (read_prop E filters ''sort'')
        then [OrderBy ''avgRating'' ''desc'']
        else [])"
    by (auto simp: added_equalities_def added_ordering_def)
qed

text \<open>
  Two configurations on which the composer returns a query: an unrecognized \<open>sort\<close>
  beside a city, which adds no ordering, and \<^verbatim>\<open>"Review"\<close> beside a price.
\<close>

theorem applyQueryFilters_ordering_witness:
  "applyQueryFilters plain_env
     \<lparr>q_source = Ref JNull [JStr ''restaurants''], q_constraints = []\<rparr>
     (JObj [(''city'', JStr ''Oslo''), (''sort'', JStr ''Price'')]) =
     Inr \<lparr>q_source = Ref JNull [JStr ''restaurants''],
          q_constraints = [Where ''city'' ''=='' (JStr ''Oslo'')]\<rparr> \<and>
   (\<exists>cs. [Where ''city'' ''=='' (JStr ''Oslo'')] = cs \<and> filter is_ordering cs = []) \<and>
   applyQueryFilters plain_env
     \<lparr>q_source = Ref JNull [JStr ''restaurants''], q_constraints = []\<rparr>
     (JObj [(''price'', JStr ''$$''), (''sort'', JStr ''Review'')]) =
     Inr \<lparr>q_source = Ref JNull [JStr ''restaurants''],
          q_constraints = [Where ''price'' ''=='' (JNum (Fin 2)),
                           OrderBy ''numRatings'' ''desc'']\<rparr> \<and>
   (\<exists>cs. [Where ''price'' ''=='' (JNum (Fin 2)), OrderBy ''numRatings'' ''desc''] = cs \<and>
      filter is_ordering cs = [OrderBy ''numRatings'' ''desc''])"
proof -
  let ?q = "\<lparr>q_source = Ref JNull [JStr ''restaurants''], q_constraints = []\<rparr>"
  have h1: "applyQueryFilters plain_env ?q
        (JObj [(''city'', JStr ''Oslo''), (''sort'', JStr ''Price'')]) =
      Inr \<lparr>q_source = Ref JNull [JStr ''restaurants''],
           q_constraints = [Where ''city'' ''=='' (JStr ''Oslo'')]\<rparr>"
    by (simp add: applyQueryFilters_def query_where_def query_add_def lookup_def Let_def)
  have h2: "applyQueryFilters plain_env ?q
        (JObj [(''price'', JStr ''$$''), (''sort'', JStr ''Review'')]) =
      Inr \<lparr>q_source = Ref JNull [JStr ''restaurants''],
           q_constraints = [Where ''price'' ''=='' (JNum (Fin 2)),
                            OrderBy ''numRatings'' ''desc'']\<rparr>"
    by (simp add: applyQueryFilters_def query_where_def query_add_def lookup_def Let_def)
  show ?thesis
    using h1 h2 applyQueryFilters_ordering [OF h1] applyQueryFilters_ordering [OF h2]
    by (simp add: lookup_def)
qed

text \<open>
  C3, as the specification states it, fails: the composer does not add a predicate for
  every truthy option without error. A \<open>price\<close> given as the integer tier 2 has no
  \<open>length\<close>; line 111 hands \<open>undefined\<close> to \<^verbatim>\<open>where\<close>, and the composer throws.
\<close>

theorem applyQueryFilters_numeric_price_counterexample:
  "applyQueryFilters plain_env
     \<lparr>q_source = Ref JNull [JStr ''restaurants''], q_constraints = []\<rparr>
     (JObj [(''price'', JNum (Fin 2))]) =
   Inl (SdkError ''invalid-argument'')"
  by (simp add: applyQueryFilters_def query_where_def lookup_def Let_def)

text \<open>
  C3, amended. For a filter configuration (any value but \<open>undefined\<close> and \<open>null\<close>) whose
  \<open>category\<close>, \<open>city\<close> and \<open>price\<close> options are each a string or falsy, the composer
  returns a query and no error; the equality predicates it adds are one for each truthy
  option, on that field and in this order, and none for a falsy option.
  \<^verbatim>\<open>{category: "Indian", sort: "Review"}\<close> gives exactly \<^verbatim>\<open>category == "Indian"\<close> and
  \<^verbatim>\<open>numRatings desc\<close>; \<^verbatim>\<open>{}\<close> gives only \<^verbatim>\<open>avgRating desc\<close>.
\<close>

theorem applyQueryFilters_equalities:
  "(\<not> nullish filters \<and>
    text_option (read_prop E filters ''category'') \<and>
    text_option (read_prop E filters ''city'') \<and>
    text_option (read_prop E filters ''price'') \<longrightarrow>
     (\<exists>cs. applyQueryFilters E q filters =
              Inr (q\<lparr>q_constraints := q_constraints q @ cs\<rparr>) \<and>
        filter (\<lambda>c. \<not> is_ordering c) cs =
          (if truthy (read_prop E filters ''category'')
           then [Where ''category'' ''=='' (read_prop E filters ''category'')] else []) @
          (if truthy (read_prop E filters ''city'')
           then [Where ''city'' ''=='' (read_prop E filters ''city'')] else []) @
          (if truthy (read_prop E filters ''price'')
           then [Where ''price'' ''=='' (read_prop E (read_prop E filters ''price'') ''length'')]
           else []))) \<and>
   applyQueryFilters E (query_of r)
     (JObj [(''category'', JStr ''Indian''), (''sort'', JStr ''Review'')]) =
     Inr \<lparr>q_source = r, q_constraints =
       [Where ''category'' ''=='' (JStr ''Indian''), OrderBy ''numRatings'' ''desc'']\<rparr> \<and>
   applyQueryFilters E (query_of r) (JObj []) =
     Inr \<lparr>q_source = r, q_constraints = [OrderBy ''avgRating'' ''desc'']\<rparr>"
proof (intro conjI impI)
  assume h: "\<not> nullish filters \<and>
    text_option (read_prop E filters ''category'') \<and>
    text_option (read_prop E filters ''city'') \<and>
    text_option (read_prop E filters ''price'')"
  then have nn: "\<not> nullish filters"
    and pr: "truthy (read_prop E filters ''price'') \<Longrightarrow>
         read_prop E (read_prop E filters ''price'') ''length'' \<noteq> JUndefined"
    by (simp_all add: text_option_length)
  have "filter (\<lambda>c. \<not> is_ordering c) (added_equalities E filters @ added_ordering E filters) =
      added_equalities E filters"
    by (simp add: added_equalities_def added_ordering_def)
  with applyQueryFilters_result [OF nn pr, of q]
  show "\<exists>cs. applyQueryFilters E q filters =
              Inr (q\<lparr>q_constraints := q_constraints q @ cs\<rparr>) \<and>
        filter (\<lambda>c. \<not> is_ordering c) cs =
          (if truthy (read_prop E filters ''category'')
           then [Where ''category'' ''=='' (read_prop E filters ''category'')] else []) @
          (if truthy (read_prop E filters ''city'')
           then [Where ''city'' ''=='' (read_prop E filters ''city'')] else []) @
          (if truthy (read_prop E filters ''price'')
           then [Where ''price'' ''=='' (read_prop E (read_prop E filters ''price'') ''length'')]
           else [])"
    unfolding added_equalities_def [symmetric] by blast
next
  show "applyQueryFilters E (query_of r)
     (JObj [(''category'', JStr ''Indian''), (''sort'', JStr ''Review'')]) =
     Inr \<lparr>q_source = r, q_constraints =
       [Where ''category'' ''=='' (JStr ''Indian''), OrderBy ''numRatings'' ''desc'']\<rparr>"
    by (simp add: applyQueryFilters_def query_where_def query_add_def query_of_def
        lookup_def Let_def)
next
  show "applyQueryFilters E (query_of r) (JObj []) =
     Inr \<lparr>q_source = r, q_constraints = [OrderBy ''avgRating'' ''desc'']\<rparr>"
    by (simp add: applyQueryFilters_def query_where_def query_add_def query_of_def
        lookup_def Let_def)
qed

theorem applyQueryFilters_equalities_witness:
  "\<exists>cs. applyQueryFilters plain_env (query_of (Ref JNull [JStr ''restaurants'']))
           (JObj [(''category'', JStr ''Thai''), (''city'', JStr []),
                  (''price'', JStr ''$$$'')]) =
         Inr ((query_of (Ref JNull [JStr ''restaurants'']))
               \<lparr>q_constraints :=
                  q_constraints (query_of (Ref JNull [JStr ''restaurants''])) @ cs\<rparr>) \<and>
     filter (\<lambda>c. \<not> is_ordering c) cs =
       [Where ''category'' ''=='' (JStr ''Thai''), Where ''price'' ''=='' (JNum (Fin 3))]"
  using applyQueryFilters_equalities [where filters =
      "JObj [(''category'', JStr ''Thai''), (''city'', JStr []), (''price'', JStr ''$$$'')]"
      and E = plain_env and q = "query_of (Ref JNull [JStr ''restaurants''])"]
  by (simp add: lookup_def)

text \<open>
  C4. A \<open>price\<close> option that is a non-empty string \<open>s\<close> adds exactly one predicate on
  \<open>price\<close>, and it compares the field with the number \<open>length s\<close>, not with \<open>s\<close>.
\<close>

theorem applyQueryFilters_price_tier:
  assumes "\<not> nullish filters" and "read_prop E filters ''price'' = JStr s" and "s \<noteq> []"
  shows "\<exists>cs. applyQueryFilters E q filters =
             Inr (q\<lparr>q_constraints := q_constraints q @ cs\<rparr>) \<and>
     filter (on_field ''price'') cs =
       [Where ''price'' ''=='' (JNum (Fin (of_nat (length s))))]"
proof (intro exI conjI)
  show "applyQueryFilters E q filters =
    Inr (q\<lparr>q_constraints :=
           q_constraints q @ (added_equalities E filters @ added_ordering E filters)\<rparr>)"
    using assms by (intro applyQueryFilters_result) simp_all
  show "filter (on_field ''price'') (added_equalities E filters @ added_ordering E filters) =
      [Where ''price'' ''=='' (JNum (Fin (of_nat (length s))))]"
    using assms(2,3) by (simp add: added_equalities_def added_ordering_def)
qed

text \<open>The price \<^verbatim>\<open>"$$"\<close> filters on tier 2.\<close>

theorem applyQueryFilters_price_tier_witness:
  "\<exists>cs. applyQueryFilters plain_env (query_of (Ref JNull [JStr ''restaurants'']))
           (JObj [(''price'', JStr ''$$'')]) =
         Inr ((query_of (Ref JNull [JStr ''restaurants'']))
               \<lparr>q_constraints :=
                  q_constraints (query_of (Ref JNull [JStr ''restaurants''])) @ cs\<rparr>) \<and>
     filter (on_field ''price'') cs = [Where ''price'' ''=='' (JNum (Fin 2))]"
proof -
  have h1: "\<not> nullish (JObj [(''price'', JStr ''$$'')])" by simp
  have h2: "read_prop plain_env (JObj [(''price'', JStr ''$$'')]) ''price'' = JStr ''$$''"
    by (simp add: lookup_def)
  have h3: "''$$'' \<noteq> []" by simp
  show ?thesis
    using applyQueryFilters_price_tier [OF h1 h2 h3,
        where q = "query_of (Ref JNull [JStr ''restaurants''])"]
    by simp
qed

section \<open>Properties of the read and subscription wrappers\<close>

text \<open>
  The four helpers that take an identifier answer a falsy one with one console line and
  \<open>undefined\<close>, and touch nothing else.
\<close>

lemma soft_fail_absent_identifier:
  assumes "\<not> truthy restaurantId"
  shows "getRestaurantById E w db restaurantId =
           (w\<lparr>console := console w @
                [ConsoleLog ''Error: Invalid ID received: '' (Some restaurantId)]\<rparr>,
            Inr JUndefined)"
    and "getRestaurantSnapshotById E w restaurantId cb =
           (w\<lparr>console := console w @
                [ConsoleLog ''Error: Invalid ID received: '' (Some restaurantId)]\<rparr>,
            Inr JUndefined)"
    and "getReviewsByRestaurantId E w db restaurantId =
           (w\<lparr>console := console w @
                [ConsoleLog ''Error: Invalid restaurantId received: '' (Some restaurantId)]\<rparr>,
            Inr JUndefined)"
    and "getReviewsSnapshotByRestaurantId E w restaurantId cb =
           (w\<lparr>console := console w @
                [ConsoleLog ''Error: Invalid restaurantId received: '' (Some restaurantId)]\<rparr>,
            Inr JUndefined)"
  using assms
  by (simp_all add: getRestaurantById_def getRestaurantSnapshotById_def
      getReviewsByRestaurantId_def getReviewsSnapshotByRestaurantId_def)

text \<open>Two of the three subscription helpers answer a callback that is no function alike.\<close>

lemma soft_fail_callback:
  assumes "\<not> is_function cb"
  shows "getRestaurantsSnapshot E w cb filters =
           (w\<lparr>console := console w @
                [ConsoleLog ''Error: The callback parameter is not a function'' None]\<rparr>,
            Inr JUndefined)"
    and "truthy restaurantId \<Longrightarrow>
         getRestaurantSnapshotById E w restaurantId cb =
           (w\<lparr>console := console w @
                [ConsoleLog ''Error: The callback parameter is not a function'' None]\<rparr>,
            Inr JUndefined)"
  using assms
  by (simp_all add: getRestaurantsSnapshot_def getRestaurantSnapshotById_def)

text \<open>
  C8 at the input where the code departs from it: \<open>getReviewsSnapshotByRestaurantId\<close>
  with an identifier and \<open>undefined\<close> for the callback registers the listener with the
  store and returns the unsubscribe function; it logs nothing.
\<close>

theorem reviews_snapshot_unchecked_callback:
  "getReviewsSnapshotByRestaurantId plain_env \<lparr>docs = [], calls = [], console = []\<rparr>
     (JStr ''r1'') JUndefined =
   (\<lparr>docs = [], calls =
       [COnSnapshotQuery
         \<lparr>q_source = Ref (JObj [(''app'', JStr ''default'')])
                       [JStr ''restaurants'', JStr ''r1'', JStr ''ratings''],
          q_constraints = [OrderBy ''timestamp'' ''desc'']\<rparr>],
      console = []\<rparr>,
    Inr (JFun 0))"
  by (simp add: getReviewsSnapshotByRestaurantId_def reviews_query_def collection_def
      mk_ref_def onSnapshot_def query_add_def query_of_def plain_env_def Let_def)

text \<open>
  C9. For a truthy identifier whose reference the store accepts and reads, and under
  which no document is stored, \<open>getRestaurantById\<close> makes the one read and then fails
  with the \<open>TypeError\<close> of reading \<open>timestamp\<close> from the \<open>undefined\<close> data of the empty
  snapshot; it returns no value, so no result that stands for "not found".
\<close>

theorem getRestaurantById_missing:
  assumes "truthy restaurantId"
    and "ref_rejects E (Ref db [JStr ''restaurants'', restaurantId]) = None"
    and "get_rejects E (Ref db [JStr ''restaurants'', restaurantId]) = None"
    and "map_of (docs w) (Ref db [JStr ''restaurants'', restaurantId]) = None"
  shows "getRestaurantById E w db restaurantId =
     (w\<lparr>calls := calls w @ [CGetDoc (Ref db [JStr ''restaurants'', restaurantId])]\<rparr>,
      Inl (TypeError ''cannot read property timestamp''))"
  using assms
  by (simp add: getRestaurantById_def doc_def mk_ref_def getDoc_def snap_data_def
      plain_record_def get_prop_def Let_def)

theorem getRestaurantById_missing_witness:
  "getRestaurantById plain_env
     \<lparr>docs = [(Ref JNull [JStr ''restaurants'', JStr ''r1''], [(''name'', JStr ''Cafe'')])],
      calls = [], console = []\<rparr>
     JNull (JStr ''ghost'') =
   (\<lparr>docs = [(Ref JNull [JStr ''restaurants'', JStr ''r1''], [(''name'', JStr ''Cafe'')])],
      calls = [CGetDoc (Ref JNull [JStr ''restaurants'', JStr ''ghost''])],
      console = []\<rparr>,
    Inl (TypeError ''cannot read property timestamp''))"
proof -
  let ?w = "\<lparr>docs = [(Ref JNull [JStr ''restaurants'', JStr ''r1''],
                      [(''name'', JStr ''Cafe'')])], calls = [], console = []\<rparr>"
  have h1: "truthy (JStr ''ghost'')" by simp
  have h2: "ref_rejects plain_env (Ref JNull [JStr ''restaurants'', JStr ''ghost'']) = None"
    by (simp add: plain_env_def)
  have h3: "get_rejects plain_env (Ref JNull [JStr ''restaurants'', JStr ''ghost'']) = None"
    by (simp add: plain_env_def)
  have h4: "map_of (docs ?w) (Ref JNull [JStr ''restaurants'', JStr ''ghost'']) = None"
    by simp
  show ?thesis
    using getRestaurantById_missing [OF h1 h2 h3 h4]
    by simp
qed

text \<open>
  C10. Called with \<open>undefined\<close> for the store handle (the argument left out),
  \<open>getRestaurants\<close> fails with a \<open>ReferenceError\<close> and leaves the world as it was: no
  query is composed or run, and the module's own handle is not used.
\<close>

theorem getRestaurants_default_db:
  "getRestaurants E w JUndefined filters =
     (w, Inl (ReferenceError ''cannot access db before initialization''))"
  by (simp add: getRestaurants_def)

theorem getRestaurants_default_db_witness:
  "getRestaurants plain_env
     \<lparr>docs = [(Ref JNull [JStr ''restaurants'', JStr ''r1''], [(''name'', JStr ''Cafe'')])],
      calls = [], console = []\<rparr>
     JUndefined (JObj [(''sort'', JStr ''Review'')]) =
   (\<lparr>docs = [(Ref JNull [JStr ''restaurants'', JStr ''r1''], [(''name'', JStr ''Cafe'')])],
      calls = [], console = []\<rparr>,
    Inl (ReferenceError ''cannot access db before initialization''))"
  by (rule getRestaurants_default_db)

end
